theory Spec2Isabelle
  imports Complex_Main "HOL-Library.Signed_Division"
begin

section \<open>Sprite animation and orientation: the data model\<close>

text \<open>
  The repository holds two versions of the sprite component:
  \<^item> \<^verbatim>\<open>src/components/character/SpriteCharacter.tsx\<close>, an 8 x 4 atlas driven by
    \<^verbatim>\<open>ANIMATION_CONFIG\<close> (frame count and speed per status);
  \<^item> the \<^verbatim>\<open>SpriteCharacter\<close> module in \<^verbatim>\<open>src/scenes/IsometricSandboxScene.tsx\<close>, a
    12 x 12 atlas driven by \<^verbatim>\<open>SPRITE_MAP\<close> (frame list, fps and loop flag per direction
    and status).
  Names of the 12 x 12 version are kept as they are; where the 8 x 4 version declares the
  same name with a different meaning it carries the suffix \<open>_8x4\<close>.
  \<^verbatim>\<open>resolveFacingDirection\<close> is the same text in both files and is modelled once.

  Frame indices, frame values, rows and counts are integers, with the operator \<^verbatim>\<open>%\<close>
  as the truncated remainder \<open>smod\<close>, which keeps the sign of the dividend as JavaScript
  does. Vector components and times are reals in the model of the callback; the
  statements made about it (the order of the steps, the lookup, the bounds of the frame
  index, the atlas offsets) do not rest on how the arithmetic rounds. How many frames one
  call advances does: for that the frame clock is modelled a second time in IEEE-754
  double precision.
\<close>

datatype FacingDirection = South | West | East | North

text \<open>
  \<^verbatim>\<open>CharacterAnimationStatus\<close> is imported from the controller library; its members are the
  keys of \<^verbatim>\<open>ANIMATION_CONFIG: Record<CharacterAnimationStatus, AnimationConfig>\<close>.
\<close>

datatype CharacterAnimationStatus =
  IDLE | WALK | RUN | JUMP_START | JUMP_IDLE | JUMP_FALL | JUMP_LAND

text \<open>The three.js vector and the three methods of it that the component calls.\<close>

record Vector3 =
  vec_x :: real
  vec_y :: real
  vec_z :: real

definition lengthSq :: "Vector3 \<Rightarrow> real" where
  "lengthSq v = vec_x v * vec_x v + vec_y v * vec_y v + vec_z v * vec_z v"

definition dot :: "Vector3 \<Rightarrow> Vector3 \<Rightarrow> real" where
  "dot v w = vec_x v * vec_x w + vec_y v * vec_y w + vec_z v * vec_z w"

definition multiplyScalar :: "Vector3 \<Rightarrow> real \<Rightarrow> Vector3" where
  "multiplyScalar v k = \<lparr>vec_x = vec_x v * k, vec_y = vec_y v * k, vec_z = vec_z v * k\<rparr>"

definition WORLD_FORWARD :: Vector3 where
  "WORLD_FORWARD = \<lparr>vec_x = 0, vec_y = 0, vec_z = 1\<rparr>"

definition WORLD_RIGHT :: Vector3 where
  "WORLD_RIGHT = \<lparr>vec_x = 1, vec_y = 0, vec_z = 0\<rparr>"

section \<open>Direction resolver\<close>

definition resolveFacingDirection :: "Vector3 \<Rightarrow> FacingDirection" where
  "resolveFacingDirection movingDir =
     (if lengthSq movingDir < 1 / 1000000 then South
      else
        let projectionForward = dot movingDir WORLD_FORWARD;
            projectionRight = dot movingDir WORLD_RIGHT
        in if \<bar>projectionRight\<bar> > \<bar>projectionForward\<bar>
           then (if projectionRight > 0 then East else West)
           else (if projectionForward > 0 then South else North))"

section \<open>The per-frame inputs and the playback state\<close>

text \<open>
  What one call of the \<^verbatim>\<open>useFrame\<close> callback reads: the two vectors of the global
  \<^verbatim>\<open>characterStatus\<close>, the animation status of the store, and the frame's \<^verbatim>\<open>delta\<close>.
\<close>

record FrameInput =
  movingDir :: Vector3
  inputDir :: Vector3
  animationStatus :: CharacterAnimationStatus
  delta :: real

text \<open>The four refs of the component.\<close>

record PlaybackState =
  directionRef :: FacingDirection
  elapsedRef :: real
  frameIndexRef :: int
  previousStatusRef :: CharacterAnimationStatus

text \<open>Steps shared by both versions: the facing direction and the reset on a new status.\<close>

definition targetDirection :: "FrameInput \<Rightarrow> Vector3" where
  "targetDirection inp =
     (if lengthSq (movingDir inp) > 1 / 1000000 then movingDir inp else inputDir inp)"

definition determineFacing :: "PlaybackState \<Rightarrow> FrameInput \<Rightarrow> PlaybackState" where
  "determineFacing st inp =
     (if lengthSq (targetDirection inp) > 1 / 1000000
      then st\<lparr>directionRef := resolveFacingDirection (targetDirection inp)\<rparr>
      else st)"

definition handleStatusChange :: "PlaybackState \<Rightarrow> CharacterAnimationStatus \<Rightarrow> PlaybackState" where
  "handleStatusChange st status =
     (if previousStatusRef st \<noteq> status
      then st\<lparr>previousStatusRef := status, frameIndexRef := 0, elapsedRef := 0\<rparr>
      else st)"

section \<open>The 12 x 12 version: sequence table and lookup\<close>

record AnimationSequence =
  frames :: "int list"
  fps :: real
  loop :: bool

text \<open>
  \<^verbatim>\<open>sequences: Partial<Record<CharacterAnimationStatus, AnimationSequence>> & { IDLE: ... }\<close>
  is, when the program runs, an object in which a key may be absent: a partial map. That
  the key \<^verbatim>\<open>IDLE\<close> is present is a demand of the type, stated by \<open>idleDefined\<close> below.
\<close>

record SpriteDefinition =
  row :: int
  sequences :: "CharacterAnimationStatus \<rightharpoonup> AnimationSequence"

type_synonym SpriteMap = "FacingDirection \<Rightarrow> SpriteDefinition"

definition SPRITE_COLUMNS :: int where
  "SPRITE_COLUMNS = 12"

definition SPRITE_ROWS :: int where
  "SPRITE_ROWS = 12"

definition SPRITE_MAP :: SpriteMap where
  "SPRITE_MAP facing =
     (case facing of
        South \<Rightarrow>
          \<lparr>row = 0,
           sequences = [IDLE \<mapsto> \<lparr>frames = [6, 7, 8], fps = 3, loop = True\<rparr>,
                      WALK \<mapsto> \<lparr>frames = [0, 1, 2, 3, 4, 5], fps = 10, loop = True\<rparr>,
                      RUN \<mapsto> \<lparr>frames = [0, 1, 2, 3, 4, 5], fps = 10, loop = True\<rparr>,
                      JUMP_START \<mapsto> \<lparr>frames = [7], fps = 1, loop = False\<rparr>,
                      JUMP_IDLE \<mapsto> \<lparr>frames = [7], fps = 1, loop = False\<rparr>,
                      JUMP_FALL \<mapsto> \<lparr>frames = [7], fps = 1, loop = False\<rparr>,
                      JUMP_LAND \<mapsto> \<lparr>frames = [7], fps = 1, loop = False\<rparr>]\<rparr>
      | North \<Rightarrow>
          \<lparr>row = 1,
           sequences = [IDLE \<mapsto> \<lparr>frames = [6, 7, 8], fps = 3, loop = True\<rparr>,
                      WALK \<mapsto> \<lparr>frames = [0, 1, 2, 3, 4, 5], fps = 10, loop = True\<rparr>,
                      RUN \<mapsto> \<lparr>frames = [0, 1, 2, 3, 4, 5], fps = 10, loop = True\<rparr>,
                      JUMP_START \<mapsto> \<lparr>frames = [7], fps = 1, loop = False\<rparr>,
                      JUMP_IDLE \<mapsto> \<lparr>frames = [7], fps = 1, loop = False\<rparr>,
                      JUMP_FALL \<mapsto> \<lparr>frames = [7], fps = 1, loop = False\<rparr>,
                      JUMP_LAND \<mapsto> \<lparr>frames = [7], fps = 1, loop = False\<rparr>]\<rparr>
      | West \<Rightarrow>
          \<lparr>row = 2,
           sequences = [IDLE \<mapsto> \<lparr>frames = [6, 7, 8], fps = 3, loop = True\<rparr>,
                      WALK \<mapsto> \<lparr>frames = [0, 1, 2, 3, 4, 5], fps = 10, loop = True\<rparr>,
                      RUN \<mapsto> \<lparr>frames = [0, 1, 2, 3, 4, 5], fps = 10, loop = True\<rparr>,
                      JUMP_START \<mapsto> \<lparr>frames = [7], fps = 1, loop = False\<rparr>,
                      JUMP_IDLE \<mapsto> \<lparr>frames = [7], fps = 1, loop = False\<rparr>,
                      JUMP_FALL \<mapsto> \<lparr>frames = [7], fps = 1, loop = False\<rparr>,
                      JUMP_LAND \<mapsto> \<lparr>frames = [7], fps = 1, loop = False\<rparr>]\<rparr>
      | East \<Rightarrow>
          \<lparr>row = 3,
           sequences = [IDLE \<mapsto> \<lparr>frames = [6, 7, 8], fps = 3, loop = True\<rparr>,
                      WALK \<mapsto> \<lparr>frames = [0, 1, 2, 3, 4, 5], fps = 10, loop = True\<rparr>,
                      RUN \<mapsto> \<lparr>frames = [0, 1, 2, 3, 4, 5], fps = 10, loop = True\<rparr>,
                      JUMP_START \<mapsto> \<lparr>frames = [7], fps = 1, loop = False\<rparr>,
                      JUMP_IDLE \<mapsto> \<lparr>frames = [7], fps = 1, loop = False\<rparr>,
                      JUMP_FALL \<mapsto> \<lparr>frames = [7], fps = 1, loop = False\<rparr>,
                      JUMP_LAND \<mapsto> \<lparr>frames = [7], fps = 1, loop = False\<rparr>]\<rparr>)"

definition idleDefined :: "SpriteMap \<Rightarrow> bool" where
  "idleDefined spriteMap =
     list_all (\<lambda>facing. sequences (spriteMap facing) IDLE \<noteq> None) [South, West, East, North]"

text \<open>
  The module constant \<^verbatim>\<open>SPRITE_MAP\<close> is a parameter of the functions that read it, so that
  statements can range over every table of its type. The operator \<^verbatim>\<open>??\<close> takes its right
  operand when the left one is undefined; the result is undefined (\<open>None\<close>) when the
  fallback key is absent too.
\<close>

definition getSequence ::
  "SpriteMap \<Rightarrow> FacingDirection \<Rightarrow> CharacterAnimationStatus \<Rightarrow> AnimationSequence option" where
  "getSequence spriteMap facing status =
     (let definition = spriteMap facing
      in case sequences definition status of
           Some s \<Rightarrow> Some s
         | None \<Rightarrow> sequences definition IDLE)"

section \<open>The 12 x 12 version: frame clock\<close>

text \<open>Reading an array element: undefined (\<open>None\<close>) outside the array.\<close>

definition arrayGet :: "'a list \<Rightarrow> int \<Rightarrow> 'a option" where
  "arrayGet xs i = (if 0 \<le> i \<and> i < int (length xs) then Some (xs ! nat i) else None)"

text \<open>The body of the \<^verbatim>\<open>while\<close> loop, as far as the frame index goes.\<close>

definition nextFrameIndex :: "AnimationSequence \<Rightarrow> int \<Rightarrow> int" where
  "nextFrameIndex s idx =
     (let nextIndex = idx + 1
      in if nextIndex \<ge> int (length (frames s))
         then (if loop s then 0 else int (length (frames s)) - 1)
         else nextIndex)"

text \<open>
  \<^verbatim>\<open>while (elapsedRef.current >= frameDuration) { ... }\<close>. The loop stands in the branch
  where \<^verbatim>\<open>sequence.fps > 0\<close>, so \<open>frameDuration = 1 / fps\<close> is positive whenever the loop is
  reached; the test \<open>0 < frameDuration\<close> carries that fact into the recursion, which
  makes the function total. Each round subtracts \<open>frameDuration\<close>, so the number of
  whole frame durations left in the elapsed time decreases.
\<close>

function advanceFrames :: "AnimationSequence \<Rightarrow> real \<Rightarrow> int \<times> real \<Rightarrow> int \<times> real" where
  "advanceFrames s frameDuration (idx, e) =
     (if 0 < frameDuration \<and> e \<ge> frameDuration
      then advanceFrames s frameDuration (nextFrameIndex s idx, e - frameDuration)
      else (idx, e))"
  by pat_completeness auto
termination
proof (relation "measure (\<lambda>(s, d, idx, e). nat \<lfloor>e / d\<rfloor>)")
  show "wf (measure (\<lambda>(s, d, idx, e). nat \<lfloor>e / d\<rfloor>))"
    by simp
next
  fix s :: AnimationSequence and frameDuration e :: real and idx :: int
  assume a: "0 < frameDuration \<and> frameDuration \<le> e"
  then have one: "1 \<le> e / frameDuration"
    by (simp add: pos_le_divide_eq)
  have "(e - frameDuration) / frameDuration = e / frameDuration - 1"
    using a by (simp add: diff_divide_distrib)
  then have "\<lfloor>(e - frameDuration) / frameDuration\<rfloor> = \<lfloor>e / frameDuration\<rfloor> - 1"
    by simp
  moreover have "1 \<le> \<lfloor>e / frameDuration\<rfloor>"
    using one by (simp add: le_floor_iff)
  ultimately show "((s, frameDuration, nextFrameIndex s idx, e - frameDuration),
                    (s, frameDuration, idx, e))
                   \<in> measure (\<lambda>(s, d, idx, e). nat \<lfloor>e / d\<rfloor>)"
    by simp
qed

declare advanceFrames.simps [simp del]

text \<open>Step 4 of the callback, on the pair of the frame index and the elapsed time.\<close>

definition updateAnimationFrame :: "AnimationSequence \<Rightarrow> int \<times> real \<Rightarrow> real \<Rightarrow> int \<times> real" where
  "updateAnimationFrame s st dt =
     (if int (length (frames s)) \<le> 1 \<or> fps s \<le> 0
      then (0, 0)
      else
        let frameDuration = 1 / fps s
        in advanceFrames s frameDuration (fst st, snd st + dt))"

text \<open>The clock run over the deltas of several frames, sequence and status unchanged.\<close>

definition runFrames :: "AnimationSequence \<Rightarrow> int \<times> real \<Rightarrow> real list \<Rightarrow> int \<times> real" where
  "runFrames s st dts = foldl (updateAnimationFrame s) st dts"

section \<open>The 12 x 12 version: texture offset and the whole callback\<close>

text \<open>
  Step 5. \<open>frameColumn\<close> is undefined arithmetic (NaN, here \<open>None\<close>) when the frame
  index is outside the frame list. The first component is \<open>offsetX\<close>, the second
  \<open>offsetY\<close>.
\<close>

definition offsetX :: "int \<Rightarrow> real" where
  "offsetX frameValue =
     (let frameColumn = frameValue smod SPRITE_COLUMNS
      in real_of_int frameColumn / real_of_int SPRITE_COLUMNS)"

definition offsetY :: "SpriteMap \<Rightarrow> FacingDirection \<Rightarrow> real" where
  "offsetY spriteMap facing = real_of_int (row (spriteMap facing)) / real_of_int SPRITE_ROWS"

definition textureOffset ::
  "SpriteMap \<Rightarrow> FacingDirection \<Rightarrow> AnimationSequence \<Rightarrow> int \<Rightarrow> real option \<times> real" where
  "textureOffset spriteMap facing s idx =
     (map_option offsetX (arrayGet (frames s) idx), offsetY spriteMap facing)"

text \<open>Reading \<^verbatim>\<open>sequence.frames\<close> of an undefined sequence throws.\<close>

datatype JsError = TypeError

definition useFrame ::
  "SpriteMap \<Rightarrow> PlaybackState \<Rightarrow> FrameInput \<Rightarrow> JsError + PlaybackState \<times> (real option \<times> real)" where
  "useFrame spriteMap st inp =
     (let st1 = determineFacing st inp;
          st2 = handleStatusChange st1 (animationStatus inp)
      in case getSequence spriteMap (directionRef st2) (animationStatus inp) of
           None \<Rightarrow> Inl TypeError
         | Some s \<Rightarrow>
             let r = updateAnimationFrame s (frameIndexRef st2, elapsedRef st2) (delta inp);
                 st3 = st2\<lparr>frameIndexRef := fst r, elapsedRef := snd r\<rparr>
             in Inr (st3, textureOffset spriteMap (directionRef st3) s (frameIndexRef st3)))"

text \<open>The state of a freshly mounted component.\<close>

definition initialState :: "CharacterAnimationStatus \<Rightarrow> PlaybackState" where
  "initialState status =
     \<lparr>directionRef = South, elapsedRef = 0, frameIndexRef = 0, previousStatusRef = status\<rparr>"

section \<open>The 8 x 4 version\<close>

record AnimationConfig =
  frameCount :: int
  speedFps :: real

definition SPRITE_COLUMNS_8x4 :: int where
  "SPRITE_COLUMNS_8x4 = 8"

definition SPRITE_ROWS_8x4 :: int where
  "SPRITE_ROWS_8x4 = 4"

definition DIRECTION_ROW :: "FacingDirection \<Rightarrow> int" where
  "DIRECTION_ROW facing = (case facing of South \<Rightarrow> 0 | West \<Rightarrow> 1 | East \<Rightarrow> 2 | North \<Rightarrow> 3)"

definition ANIMATION_CONFIG :: "CharacterAnimationStatus \<Rightarrow> AnimationConfig" where
  "ANIMATION_CONFIG status =
     (case status of
        IDLE \<Rightarrow> \<lparr>frameCount = 4, speedFps = 2\<rparr>
      | WALK \<Rightarrow> \<lparr>frameCount = 8, speedFps = 8\<rparr>
      | RUN \<Rightarrow> \<lparr>frameCount = 8, speedFps = 12\<rparr>
      | JUMP_START \<Rightarrow> \<lparr>frameCount = 1, speedFps = 1\<rparr>
      | JUMP_IDLE \<Rightarrow> \<lparr>frameCount = 2, speedFps = 3\<rparr>
      | JUMP_FALL \<Rightarrow> \<lparr>frameCount = 2, speedFps = 3\<rparr>
      | JUMP_LAND \<Rightarrow> \<lparr>frameCount = 2, speedFps = 6\<rparr>)"

function advanceFrames_8x4 :: "int \<Rightarrow> real \<Rightarrow> int \<times> real \<Rightarrow> int \<times> real" where
  "advanceFrames_8x4 count frameDuration (idx, e) =
     (if 0 < frameDuration \<and> e \<ge> frameDuration
      then advanceFrames_8x4 count frameDuration ((idx + 1) smod count, e - frameDuration)
      else (idx, e))"
  by pat_completeness auto
termination
proof (relation "measure (\<lambda>(c, d, idx, e). nat \<lfloor>e / d\<rfloor>)")
  show "wf (measure (\<lambda>(c, d, idx, e). nat \<lfloor>e / d\<rfloor>))"
    by simp
next
  fix count idx :: int and frameDuration e :: real
  assume a: "0 < frameDuration \<and> frameDuration \<le> e"
  then have one: "1 \<le> e / frameDuration"
    by (simp add: pos_le_divide_eq)
  have "(e - frameDuration) / frameDuration = e / frameDuration - 1"
    using a by (simp add: diff_divide_distrib)
  then have "\<lfloor>(e - frameDuration) / frameDuration\<rfloor> = \<lfloor>e / frameDuration\<rfloor> - 1"
    by simp
  moreover have "1 \<le> \<lfloor>e / frameDuration\<rfloor>"
    using one by (simp add: le_floor_iff)
  ultimately show "((count, frameDuration, (idx + 1) smod count, e - frameDuration),
                    (count, frameDuration, idx, e))
                   \<in> measure (\<lambda>(c, d, idx, e). nat \<lfloor>e / d\<rfloor>)"
    by simp
qed

declare advanceFrames_8x4.simps [simp del]

definition updateAnimationFrame_8x4 :: "AnimationConfig \<Rightarrow> int \<times> real \<Rightarrow> real \<Rightarrow> int \<times> real" where
  "updateAnimationFrame_8x4 config st dt =
     (if frameCount config \<le> 1 \<or> speedFps config \<le> 0
      then (0, 0)
      else
        let frameDuration = 1 / speedFps config
        in advanceFrames_8x4 (frameCount config) frameDuration (fst st, snd st + dt))"

definition textureOffset_8x4 :: "FacingDirection \<Rightarrow> int \<Rightarrow> real \<times> real" where
  "textureOffset_8x4 facing idx =
     (let rowIndex = DIRECTION_ROW facing;
          columnIndex = idx smod SPRITE_COLUMNS_8x4
      in (real_of_int columnIndex / real_of_int SPRITE_COLUMNS_8x4,
          1 - real_of_int (rowIndex + 1) / real_of_int SPRITE_ROWS_8x4))"

text \<open>In this version the reset on a new status comes first, then the facing direction.\<close>

definition useFrame_8x4 :: "PlaybackState \<Rightarrow> FrameInput \<Rightarrow> PlaybackState \<times> (real \<times> real)" where
  "useFrame_8x4 st inp =
     (let st1 = handleStatusChange st (animationStatus inp);
          st2 = determineFacing st1 inp;
          r = updateAnimationFrame_8x4 (ANIMATION_CONFIG (animationStatus inp))
                (frameIndexRef st2, elapsedRef st2) (delta inp);
          st3 = st2\<lparr>frameIndexRef := fst r, elapsedRef := snd r\<rparr>
      in (st3, textureOffset_8x4 (directionRef st3) (frameIndexRef st3)))"

section \<open>The bounds invariant of the 12 x 12 version\<close>

text \<open>
  The frame index is a valid index into the frame list of the sequence that the stored
  direction and the stored status select in \<^verbatim>\<open>SPRITE_MAP\<close>.
\<close>

definition inBounds :: "PlaybackState \<Rightarrow> bool" where
  "inBounds st =
     (case getSequence SPRITE_MAP (directionRef st) (previousStatusRef st) of
        None \<Rightarrow> False
      | Some s \<Rightarrow> 0 \<le> frameIndexRef st \<and> frameIndexRef st < int (length (frames s)))"

section \<open>The frame clock in double precision\<close>

text \<open>
  JavaScript numbers are IEEE-754 doubles. A finite double is modelled by the real it
  denotes; an operation gives the double nearest to its exact result (ties to even).
  Signed zeros and NaN do not occur in the frame clock on finite inputs.
\<close>












section \<open>Theorems\<close>

lemma dot_WORLD_RIGHT: "dot v WORLD_RIGHT = vec_x v"
  by (simp add: dot_def WORLD_RIGHT_def)

lemma dot_WORLD_FORWARD: "dot v WORLD_FORWARD = vec_z v"
  by (simp add: dot_def WORLD_FORWARD_def)

text \<open>
  Claim C1. Below the epsilon the resolver answers South. Otherwise, with \<open>right\<close> the
  projection on +X and \<open>forward\<close> the projection on +Z: East when \<open>|right| > |forward|\<close>
  and \<open>right > 0\<close>, West when \<open>|right| > |forward|\<close> and \<open>right \<le> 0\<close>, South when
  \<open>|right| \<le> |forward|\<close> and \<open>forward > 0\<close>, North when \<open>|right| \<le> |forward|\<close> and
  \<open>forward \<le> 0\<close>. Equal magnitudes therefore never give East or West.
\<close>

theorem resolveFacingDirection_table:
  "(lengthSq v < 1 / 1000000 \<longrightarrow> resolveFacingDirection v = South) \<and>
   (\<not> lengthSq v < 1 / 1000000 \<longrightarrow>
      (let right = dot v WORLD_RIGHT; forward = dot v WORLD_FORWARD in
        (\<bar>right\<bar> > \<bar>forward\<bar> \<and> right > 0 \<longrightarrow> resolveFacingDirection v = East) \<and>
        (\<bar>right\<bar> > \<bar>forward\<bar> \<and> right \<le> 0 \<longrightarrow> resolveFacingDirection v = West) \<and>
        (\<bar>right\<bar> \<le> \<bar>forward\<bar> \<and> forward > 0 \<longrightarrow> resolveFacingDirection v = South) \<and>
        (\<bar>right\<bar> \<le> \<bar>forward\<bar> \<and> forward \<le> 0 \<longrightarrow> resolveFacingDirection v = North) \<and>
        (\<bar>right\<bar> = \<bar>forward\<bar> \<longrightarrow> resolveFacingDirection v \<in> {South, North})))"
  by (auto simp: resolveFacingDirection_def Let_def)

theorem resolveFacingDirection_table_witness:
  "resolveFacingDirection \<lparr>vec_x = 0, vec_y = 0, vec_z = 0\<rparr> = South \<and>
   resolveFacingDirection \<lparr>vec_x = 1, vec_y = 0, vec_z = 0\<rparr> = East \<and>
   resolveFacingDirection \<lparr>vec_x = -1, vec_y = 0, vec_z = 0\<rparr> = West \<and>
   resolveFacingDirection \<lparr>vec_x = 0, vec_y = 0, vec_z = 1\<rparr> = South \<and>
   resolveFacingDirection \<lparr>vec_x = 0, vec_y = 0, vec_z = -1\<rparr> = North \<and>
   resolveFacingDirection \<lparr>vec_x = 1, vec_y = 0, vec_z = -1\<rparr> \<in> {South, North}"
  using resolveFacingDirection_table [of "\<lparr>vec_x = 0, vec_y = 0, vec_z = 0\<rparr>"]
    resolveFacingDirection_table [of "\<lparr>vec_x = 1, vec_y = 0, vec_z = 0\<rparr>"]
    resolveFacingDirection_table [of "\<lparr>vec_x = -1, vec_y = 0, vec_z = 0\<rparr>"]
    resolveFacingDirection_table [of "\<lparr>vec_x = 0, vec_y = 0, vec_z = 1\<rparr>"]
    resolveFacingDirection_table [of "\<lparr>vec_x = 0, vec_y = 0, vec_z = -1\<rparr>"]
    resolveFacingDirection_table [of "\<lparr>vec_x = 1, vec_y = 0, vec_z = -1\<rparr>"]
  by (simp add: lengthSq_def dot_WORLD_RIGHT dot_WORLD_FORWARD Let_def)

subsection \<open>Facts about the steps of the callback\<close>

lemma directionRef_handleStatusChange [simp]:
  "directionRef (handleStatusChange st status) = directionRef st"
  by (simp add: handleStatusChange_def)

lemma previousStatusRef_handleStatusChange [simp]:
  "previousStatusRef (handleStatusChange st status) = status"
  by (simp add: handleStatusChange_def)

lemma handleStatusChange_changed:
  "previousStatusRef st \<noteq> status \<Longrightarrow>
   frameIndexRef (handleStatusChange st status) = 0 \<and> elapsedRef (handleStatusChange st status) = 0"
  by (simp add: handleStatusChange_def)

lemma handleStatusChange_same:
  "previousStatusRef st = status \<Longrightarrow> handleStatusChange st status = st"
  by (simp add: handleStatusChange_def)

lemma determineFacing_others [simp]:
  "previousStatusRef (determineFacing st inp) = previousStatusRef st"
  "frameIndexRef (determineFacing st inp) = frameIndexRef st"
  "elapsedRef (determineFacing st inp) = elapsedRef st"
  by (simp_all add: determineFacing_def)

lemma directionRef_determineFacing:
  "directionRef (determineFacing st inp) =
     (if lengthSq (movingDir inp) > 1 / 1000000 then resolveFacingDirection (movingDir inp)
      else if lengthSq (inputDir inp) > 1 / 1000000 then resolveFacingDirection (inputDir inp)
      else directionRef st)"
  by (simp add: determineFacing_def targetDirection_def)

lemma idleDefined_iff: "idleDefined m \<longleftrightarrow> (\<forall>facing. sequences (m facing) IDLE \<noteq> None)"
proof
  assume h: "idleDefined m"
  show "\<forall>facing. sequences (m facing) IDLE \<noteq> None"
  proof
    fix facing
    show "sequences (m facing) IDLE \<noteq> None"
      using h by (cases facing) (simp_all add: idleDefined_def)
  qed
next
  assume "\<forall>facing. sequences (m facing) IDLE \<noteq> None"
  then show "idleDefined m"
    by (simp add: idleDefined_def)
qed

lemma getSequence_defined:
  "idleDefined m \<Longrightarrow> \<exists>s. getSequence m facing status = Some s"
  by (auto simp: idleDefined_iff getSequence_def Let_def split: option.splits)

lemma useFrame_Some:
  assumes "getSequence m (directionRef (determineFacing st inp)) (animationStatus inp) = Some s"
  shows "useFrame m st inp =
           Inr (let st2 = handleStatusChange (determineFacing st inp) (animationStatus inp);
                    r = updateAnimationFrame s (frameIndexRef st2, elapsedRef st2) (delta inp)
                in (st2\<lparr>frameIndexRef := fst r, elapsedRef := snd r\<rparr>,
                    textureOffset m (directionRef st2) s (fst r)))"
  using assms by (simp add: useFrame_def Let_def)

lemma useFrame_same_status:
  assumes "getSequence m (directionRef (determineFacing st inp)) (animationStatus inp) = Some s"
    and "previousStatusRef st = animationStatus inp"
  shows "\<exists>st' off. useFrame m st inp = Inr (st', off) \<and>
           (frameIndexRef st', elapsedRef st') =
             updateAnimationFrame s (frameIndexRef st, elapsedRef st) (delta inp)"
proof -
  have "handleStatusChange (determineFacing st inp) (animationStatus inp) = determineFacing st inp"
    using assms(2) by (simp add: handleStatusChange_same)
  then show ?thesis
    by (simp add: useFrame_Some [OF assms(1)] Let_def)
qed

text \<open>
  Claim C2, as amended. Scaling a movement vector by a positive factor does not change the
  resolved direction, as long as the scaled vector is itself not below the epsilon (a
  scaled vector below the epsilon resolves to South whatever its orientation).
\<close>

theorem resolveFacingDirection_scale:
  assumes "0 < k" and "1 / 1000000 \<le> lengthSq v"
    and "1 / 1000000 \<le> lengthSq (multiplyScalar v k)"
  shows "resolveFacingDirection (multiplyScalar v k) = resolveFacingDirection v"
proof -
  have x: "dot (multiplyScalar v k) WORLD_RIGHT = vec_x v * k"
    by (simp add: dot_WORLD_RIGHT multiplyScalar_def)
  have z: "dot (multiplyScalar v k) WORLD_FORWARD = vec_z v * k"
    by (simp add: dot_WORLD_FORWARD multiplyScalar_def)
  have ab: "\<bar>vec_x v * k\<bar> > \<bar>vec_z v * k\<bar> \<longleftrightarrow> \<bar>vec_x v\<bar> > \<bar>vec_z v\<bar>"
    using assms(1) by (simp add: abs_mult)
  have px: "vec_x v * k > 0 \<longleftrightarrow> vec_x v > 0"
    using assms(1) by (simp add: zero_less_mult_iff)
  have pz: "vec_z v * k > 0 \<longleftrightarrow> vec_z v > 0"
    using assms(1) by (simp add: zero_less_mult_iff)
  show ?thesis
    using assms(2,3) unfolding resolveFacingDirection_def x z
    by (simp add: Let_def ab px pz dot_WORLD_RIGHT dot_WORLD_FORWARD del: of_int_numeral)
qed

theorem resolveFacingDirection_scale_witness:
  "0 < (2::real) \<and> 1 / 1000000 \<le> lengthSq \<lparr>vec_x = 1, vec_y = 0, vec_z = 0\<rparr> \<and>
   1 / 1000000 \<le> lengthSq (multiplyScalar \<lparr>vec_x = 1, vec_y = 0, vec_z = 0\<rparr> 2) \<and>
   resolveFacingDirection (multiplyScalar \<lparr>vec_x = 1, vec_y = 0, vec_z = 0\<rparr> 2) =
     resolveFacingDirection \<lparr>vec_x = 1, vec_y = 0, vec_z = 0\<rparr>"
  using resolveFacingDirection_scale [of 2 "\<lparr>vec_x = 1, vec_y = 0, vec_z = 0\<rparr>"]
  by (simp add: lengthSq_def multiplyScalar_def)

text \<open>
  The claim as stated fails: the unit vector along +X resolves to East, the same vector
  scaled by 1/10000 has squared length 1e-8 and resolves to South.
\<close>

theorem resolveFacingDirection_scale_counterexample:
  "1 / 1000000 \<le> lengthSq \<lparr>vec_x = 1, vec_y = 0, vec_z = 0\<rparr> \<and> 0 < (1 / 10000 :: real) \<and>
   resolveFacingDirection \<lparr>vec_x = 1, vec_y = 0, vec_z = 0\<rparr> = East \<and>
   resolveFacingDirection (multiplyScalar \<lparr>vec_x = 1, vec_y = 0, vec_z = 0\<rparr> (1 / 10000)) = South"
  by (simp add: resolveFacingDirection_def lengthSq_def multiplyScalar_def
      dot_WORLD_RIGHT dot_WORLD_FORWARD)

subsection \<open>The frame clock in closed form\<close>

lemma advanceFrames_stop:
  "\<not> (0 < d \<and> d \<le> e) \<Longrightarrow> advanceFrames s d (idx, e) = (idx, e)"
  by (subst advanceFrames.simps) auto

lemma advanceFrames_step:
  "0 < d \<Longrightarrow> d \<le> e \<Longrightarrow>
   advanceFrames s d (idx, e) = advanceFrames s d (nextFrameIndex s idx, e - d)"
  by (subst advanceFrames.simps) simp

lemma floor_ratio_zero:
  fixes d e :: real
  assumes "0 < d" and "nat \<lfloor>e / d\<rfloor> = 0"
  shows "e < d"
proof -
  have "\<lfloor>e / d\<rfloor> < 1" using assms(2) by simp
  then have "e / d < 1" by (simp add: floor_less_iff)
  then show ?thesis using assms(1) by (simp add: pos_divide_less_eq)
qed

lemma floor_ratio_Suc:
  fixes d e :: real
  assumes "0 < d" and "nat \<lfloor>e / d\<rfloor> = Suc n"
  shows "d \<le> e \<and> nat \<lfloor>(e - d) / d\<rfloor> = n"
proof -
  have "1 \<le> \<lfloor>e / d\<rfloor>" using assms(2) by linarith
  then have "1 \<le> e / d" by (simp add: le_floor_iff)
  then have le: "d \<le> e" using assms(1) by (simp add: pos_le_divide_eq)
  have "(e - d) / d = e / d - 1"
    using assms(1) by (simp add: diff_divide_distrib)
  then have "\<lfloor>(e - d) / d\<rfloor> = \<lfloor>e / d\<rfloor> - 1" by simp
  then have "nat \<lfloor>(e - d) / d\<rfloor> = n" using assms(2) by linarith
  with le show ?thesis by simp
qed



lemma runFrames_Nil [simp]: "runFrames s st [] = st"
  by (simp add: runFrames_def)

lemma runFrames_Cons [simp]:
  "runFrames s st (dt # dts) = runFrames s (updateAnimationFrame s st dt) dts"
  by (simp add: runFrames_def)

lemma runFrames_append: "runFrames s st (dts @ later) = runFrames s (runFrames s st dts) later"
  by (simp add: runFrames_def)

lemma smod_nonneg:
  fixes k l :: int
  assumes "0 \<le> k" and "0 < l"
  shows "k smod l = k mod l"
proof (cases "k = 0")
  case True
  then show ?thesis by (simp add: signed_modulo_int_def)
next
  case False
  then have "0 < k" using assms(1) by simp
  then show ?thesis using assms(2) by (simp add: signed_modulo_int_def)
qed

lemma advanceFrames_8x4_stop:
  "\<not> (0 < d \<and> d \<le> e) \<Longrightarrow> advanceFrames_8x4 c d (idx, e) = (idx, e)"
  by (subst advanceFrames_8x4.simps) auto

lemma advanceFrames_8x4_step:
  "0 < d \<Longrightarrow> d \<le> e \<Longrightarrow>
   advanceFrames_8x4 c d (idx, e) = advanceFrames_8x4 c d ((idx + 1) smod c, e - d)"
  by (subst advanceFrames_8x4.simps) simp

lemma advanceFrames_8x4_closed_form:
  assumes "0 < d"
  shows "nat \<lfloor>e / d\<rfloor> = n \<Longrightarrow>
         advanceFrames_8x4 c d (idx, e) = (((\<lambda>i. (i + 1) smod c) ^^ n) idx, e - real n * d)"
proof (induction n arbitrary: idx e)
  case 0
  then have "e < d" using assms floor_ratio_zero by blast
  then show ?case by (simp add: advanceFrames_8x4_stop)
next
  case (Suc n)
  from floor_ratio_Suc [OF assms Suc.prems]
  have le: "d \<le> e" and n: "nat \<lfloor>(e - d) / d\<rfloor> = n" by simp_all
  have "advanceFrames_8x4 c d (idx, e) = advanceFrames_8x4 c d ((idx + 1) smod c, e - d)"
    using assms le by (rule advanceFrames_8x4_step)
  also have "\<dots> = (((\<lambda>i. (i + 1) smod c) ^^ n) ((idx + 1) smod c), e - d - real n * d)"
    using Suc.IH [OF n] .
  finally have "advanceFrames_8x4 c d (idx, e) =
      (((\<lambda>i. (i + 1) smod c) ^^ n) ((idx + 1) smod c), e - d - real n * d)" .
  moreover have "((\<lambda>i. (i + 1) smod c) ^^ Suc n) idx =
                 ((\<lambda>i. (i + 1) smod c) ^^ n) ((idx + 1) smod c)"
    by (simp only: funpow_Suc_right o_apply)
  moreover have "e - d - real n * d = e - real (Suc n) * d"
    by (simp add: distrib_right)
  ultimately show ?case by (simp only:)
qed

lemma step_8x4_funpow:
  fixes c idx :: int
  assumes "0 < c" and "0 \<le> idx" and "idx < c"
  shows "((\<lambda>i. (i + 1) smod c) ^^ n) idx = (idx + int n) mod c"
proof (induction n)
  case 0
  then show ?case using assms by simp
next
  case (Suc n)
  have "((\<lambda>i. (i + 1) smod c) ^^ Suc n) idx = ((idx + int n) mod c + 1) smod c"
    using Suc.IH by simp
  also have "\<dots> = ((idx + int n) mod c + 1) mod c"
    using assms(1) by (intro smod_nonneg) simp_all
  also have "\<dots> = (idx + int n + 1) mod c"
    by (simp only: mod_add_left_eq)
  also have "idx + int n + 1 = idx + int (Suc n)"
    by simp
  finally show ?case .
qed

lemma updateAnimationFrame_8x4_looping:
  assumes "1 < frameCount c" and "0 < speedFps c"
    and "0 \<le> idx" and "idx < frameCount c"
  shows "updateAnimationFrame_8x4 c (idx, e) dt =
           (let steps = nat \<lfloor>(e + dt) / (1 / speedFps c)\<rfloor>
            in ((idx + int steps) mod frameCount c,
                e + dt - real steps * (1 / speedFps c)))"
proof -
  have d: "0 < 1 / speedFps c" using assms(2) by simp
  have pos: "0 < frameCount c" using assms(1) by simp
  have "updateAnimationFrame_8x4 c (idx, e) dt =
          advanceFrames_8x4 (frameCount c) (1 / speedFps c) (idx, e + dt)"
    using assms(1,2) by (simp add: updateAnimationFrame_8x4_def Let_def)
  then show ?thesis
    using advanceFrames_8x4_closed_form [OF d refl] step_8x4_funpow [OF pos assms(3,4)]
    by (simp add: Let_def)
qed

subsection \<open>What the frame clock preserves\<close>

lemma advanceFrames_preserves:
  "(\<And>i. P i \<Longrightarrow> P (nextFrameIndex s i)) \<Longrightarrow> P (fst st) \<Longrightarrow>
   P (fst (advanceFrames s d st))"
proof (induction s d st rule: advanceFrames.induct)
  case (1 s d idx e)
  show ?case
  proof (cases "0 < d \<and> d \<le> e")
    case True
    have "P idx" using "1.prems"(2) by simp
    then have "P (nextFrameIndex s idx)" by (rule "1.prems"(1))
    then have "P (fst (nextFrameIndex s idx, e - d))" by simp
    with "1.prems"(1) have "P (fst (advanceFrames s d (nextFrameIndex s idx, e - d)))"
      by (rule "1.IH" [OF True])
    moreover have "advanceFrames s d (idx, e) = advanceFrames s d (nextFrameIndex s idx, e - d)"
      using True by (simp add: advanceFrames_step)
    ultimately show ?thesis by simp
  next
    case False
    then have "advanceFrames s d (idx, e) = (idx, e)"
      by (rule advanceFrames_stop)
    then show ?thesis using "1.prems"(2) by simp
  qed
qed

lemma updateAnimationFrame_preserves:
  assumes "\<And>i. P i \<Longrightarrow> P (nextFrameIndex s i)"
    and "int (length (frames s)) \<le> 1 \<or> fps s \<le> 0 \<Longrightarrow> P 0"
    and "P (fst st)"
  shows "P (fst (updateAnimationFrame s st dt))"
proof (cases "int (length (frames s)) \<le> 1 \<or> fps s \<le> 0")
  case True
  then show ?thesis using assms(2) by (simp add: updateAnimationFrame_def)
next
  case False
  have "P (fst (fst st, snd st + dt))"
    using assms(3) by simp
  with assms(1) have "P (fst (advanceFrames s (1 / fps s) (fst st, snd st + dt)))"
    by (rule advanceFrames_preserves)
  then show ?thesis using False by (simp add: updateAnimationFrame_def Let_def)
qed

lemma runFrames_preserves:
  assumes "\<And>i. P i \<Longrightarrow> P (nextFrameIndex s i)"
    and "int (length (frames s)) \<le> 1 \<or> fps s \<le> 0 \<Longrightarrow> P 0"
  shows "P (fst st) \<Longrightarrow> P (fst (runFrames s st dts))"
proof (induction dts arbitrary: st)
  case Nil
  then show ?case by simp
next
  case (Cons dt dts)
  have "P (fst (updateAnimationFrame s st dt))"
    using assms Cons.prems by (rule updateAnimationFrame_preserves)
  then show ?case using Cons.IH by simp
qed

lemma nextFrameIndex_in_range:
  assumes "0 \<le> i" and "i < int (length (frames s))"
  shows "0 \<le> nextFrameIndex s i \<and> nextFrameIndex s i < int (length (frames s))"
  using assms by (auto simp: nextFrameIndex_def Let_def)

lemma nextFrameIndex_last:
  assumes "\<not> loop s" and "i = int (length (frames s)) - 1"
  shows "nextFrameIndex s i = int (length (frames s)) - 1"
  using assms by (simp add: nextFrameIndex_def Let_def)

lemma updateAnimationFrame_in_range:
  assumes "0 \<le> fst st" and "fst st < int (length (frames s))"
  shows "0 \<le> fst (updateAnimationFrame s st dt) \<and>
         fst (updateAnimationFrame s st dt) < int (length (frames s))"
proof (rule updateAnimationFrame_preserves
    [where P = "\<lambda>i. 0 \<le> i \<and> i < int (length (frames s))"])
  show "\<And>i. 0 \<le> i \<and> i < int (length (frames s)) \<Longrightarrow>
          0 \<le> nextFrameIndex s i \<and> nextFrameIndex s i < int (length (frames s))"
    by (rule nextFrameIndex_in_range) simp_all
  show "0 \<le> (0::int) \<and> 0 < int (length (frames s))"
    using assms by linarith
  show "0 \<le> fst st \<and> fst st < int (length (frames s))"
    using assms by simp
qed

lemma runFrames_static:
  assumes "int (length (frames s)) \<le> 1 \<or> fps s \<le> 0"
  shows "runFrames s st dts = (if dts = [] then st else (0, 0))"
proof (induction dts arbitrary: st)
  case Nil
  then show ?case by simp
next
  case (Cons dt dts)
  have "updateAnimationFrame s st dt = (0, 0)"
    using assms by (simp add: updateAnimationFrame_def)
  then show ?case using Cons.IH [of "(0, 0)"] by simp
qed

subsection \<open>The static table\<close>

lemma sequences_SPRITE_MAP: "sequences (SPRITE_MAP facing) = sequences (SPRITE_MAP South)"
  by (cases facing) (simp_all add: SPRITE_MAP_def)

lemma getSequence_SPRITE_MAP_facing:
  "getSequence SPRITE_MAP facing status = getSequence SPRITE_MAP South status"
  by (simp add: getSequence_def Let_def sequences_SPRITE_MAP [of facing] cong: option.case_cong)

lemma getSequence_SPRITE_MAP:
  "getSequence SPRITE_MAP facing status =
     Some (case status of
             IDLE \<Rightarrow> \<lparr>frames = [6, 7, 8], fps = 3, loop = True\<rparr>
           | WALK \<Rightarrow> \<lparr>frames = [0, 1, 2, 3, 4, 5], fps = 10, loop = True\<rparr>
           | RUN \<Rightarrow> \<lparr>frames = [0, 1, 2, 3, 4, 5], fps = 10, loop = True\<rparr>
           | _ \<Rightarrow> \<lparr>frames = [7], fps = 1, loop = False\<rparr>)"
  unfolding getSequence_SPRITE_MAP_facing [of facing]
  by (cases status) (simp_all add: getSequence_def SPRITE_MAP_def)

lemma idleDefined_SPRITE_MAP: "idleDefined SPRITE_MAP"
  by (simp add: idleDefined_def SPRITE_MAP_def)

lemma frames_SPRITE_MAP:
  assumes "getSequence SPRITE_MAP facing status = Some s"
  shows "frames s \<noteq> [] \<and> (\<forall>f \<in> set (frames s). 0 \<le> f \<and> f < 12)"
  using assms unfolding getSequence_SPRITE_MAP
  by (cases status) auto

lemma row_SPRITE_MAP: "0 \<le> row (SPRITE_MAP facing) \<and> row (SPRITE_MAP facing) \<le> 3"
  by (cases facing) (simp_all add: SPRITE_MAP_def)

lemmas advanceFrames_eval = advanceFrames_step advanceFrames_stop

section \<open>The claims about the frame clock\<close>

text \<open>
  Claim C5. For a sequence that does not loop (and has at least one frame, so that there
  is a last index), along every run of frames from the reset state with the sequence and
  the status unchanged: the frame index stays between 0 and \<open>frames.length - 1\<close>, and
  once it is the last index it is the last index after any further frames. No condition
  on the deltas is needed.
\<close>

theorem no_loop_clamps:
  assumes "\<not> loop s" and "frames s \<noteq> []"
  shows "0 \<le> fst (runFrames s (0, 0) dts) \<and>
         fst (runFrames s (0, 0) dts) \<le> int (length (frames s)) - 1 \<and>
         (fst (runFrames s (0, 0) dts) = int (length (frames s)) - 1 \<longrightarrow>
            fst (runFrames s (0, 0) (dts @ later)) = int (length (frames s)) - 1)"
proof -
  let ?L = "int (length (frames s))"
  let ?P = "\<lambda>i. 0 \<le> i \<and> i < ?L"
  have pos: "0 < ?L" using assms(2) by simp
  have "?P (fst (runFrames s (0::int, 0::real) dts))"
  proof (rule runFrames_preserves [where P = ?P])
    show "\<And>i. ?P i \<Longrightarrow> ?P (nextFrameIndex s i)"
      by (rule nextFrameIndex_in_range) simp_all
    show "?P 0" using pos by simp
    show "?P (fst (0::int, 0::real))" using pos by simp
  qed
  then have range: "0 \<le> fst (runFrames s (0, 0) dts)"
    "fst (runFrames s (0, 0) dts) \<le> ?L - 1"
    by simp_all
  have freeze: "fst (runFrames s (0, 0) (dts @ later)) = ?L - 1"
    if last: "fst (runFrames s (0, 0) dts) = ?L - 1"
  proof (cases "?L \<le> 1 \<or> fps s \<le> 0")
    case True
    have "fst (runFrames s (0, 0) dts) = 0"
      by (simp add: runFrames_static [OF True])
    then have one: "?L - 1 = 0" using last by simp
    have "fst (runFrames s (0, 0) (dts @ later)) = 0"
      by (simp add: runFrames_static [OF True])
    then show ?thesis using one by simp
  next
    case False
    let ?Q = "\<lambda>i. i = ?L - 1"
    have "?Q (fst (runFrames s (runFrames s (0, 0) dts) later))"
    proof (rule runFrames_preserves [where P = ?Q])
      show "\<And>i. ?Q i \<Longrightarrow> ?Q (nextFrameIndex s i)"
        using assms(1) by (rule nextFrameIndex_last)
      show "?Q 0" if "?L \<le> 1 \<or> fps s \<le> 0"
        using that False by simp
      show "?Q (fst (runFrames s (0, 0) dts))" by (rule last)
    qed
    then show ?thesis by (simp only: runFrames_append)
  qed
  from range freeze show ?thesis by blast
qed

theorem no_loop_clamps_witness:
  "\<not> loop \<lparr>frames = [0, 1, 2], fps = 8, loop = False\<rparr> \<and>
   frames \<lparr>frames = [0, 1, 2], fps = 8, loop = False\<rparr> \<noteq> [] \<and>
   fst (runFrames \<lparr>frames = [0, 1, 2], fps = 8, loop = False\<rparr> (0, 0) [1 / 4]) = 2 \<and>
   fst (runFrames \<lparr>frames = [0, 1, 2], fps = 8, loop = False\<rparr> (0, 0) ([1 / 4] @ [1 / 2])) = 2"
proof -
  let ?s = "\<lparr>frames = [0, 1, 2], fps = 8, loop = False\<rparr>"
  have a: "fst (runFrames ?s (0, 0) [1 / 4]) = 2"
    by (simp add: updateAnimationFrame_def advanceFrames_eval nextFrameIndex_def)
  from no_loop_clamps [of ?s "[1 / 4]" "[1 / 2]"] a show ?thesis
    by simp
qed

subsection \<open>Doubles that are exact, and the loop on them\<close>






























section \<open>The claims about the callback as a whole\<close>

text \<open>
  Claim C3. When the status given to a frame differs from the stored one, the frame
  sets the frame index and the elapsed time to 0 and stores the new status, and only then
  runs the frame clock: whatever index and elapsed time were stored before, the state after
  the frame is what the clock makes of (0, 0) with the frame delta. In both versions.
\<close>

theorem status_change_resets:
  assumes "animationStatus inp \<noteq> previousStatusRef st"
  shows "frameIndexRef (handleStatusChange st (animationStatus inp)) = 0 \<and>
         elapsedRef (handleStatusChange st (animationStatus inp)) = 0 \<and>
         previousStatusRef (handleStatusChange st (animationStatus inp)) = animationStatus inp \<and>
         (\<forall>s. getSequence spriteMap (directionRef (determineFacing st inp)) (animationStatus inp) = Some s \<longrightarrow>
            (\<exists>st' off. useFrame spriteMap st inp = Inr (st', off) \<and>
               previousStatusRef st' = animationStatus inp \<and>
               (frameIndexRef st', elapsedRef st') = updateAnimationFrame s (0, 0) (delta inp))) \<and>
         previousStatusRef (fst (useFrame_8x4 st inp)) = animationStatus inp \<and>
         (frameIndexRef (fst (useFrame_8x4 st inp)), elapsedRef (fst (useFrame_8x4 st inp))) =
            updateAnimationFrame_8x4 (ANIMATION_CONFIG (animationStatus inp)) (0, 0) (delta inp)"
proof -
  have ne: "previousStatusRef st \<noteq> animationStatus inp" using assms by simp
  have a: "frameIndexRef (handleStatusChange st (animationStatus inp)) = 0 \<and>
         elapsedRef (handleStatusChange st (animationStatus inp)) = 0 \<and>
         previousStatusRef (handleStatusChange st (animationStatus inp)) = animationStatus inp"
    using ne by (simp add: handleStatusChange_changed)
  have b: "\<exists>st' off. useFrame spriteMap st inp = Inr (st', off) \<and>
               previousStatusRef st' = animationStatus inp \<and>
               (frameIndexRef st', elapsedRef st') = updateAnimationFrame s (0, 0) (delta inp)"
    if "getSequence spriteMap (directionRef (determineFacing st inp)) (animationStatus inp) = Some s" for s
  proof -
    have "previousStatusRef (determineFacing st inp) \<noteq> animationStatus inp"
      using ne by simp
    then show ?thesis
      by (simp add: useFrame_Some [OF that] Let_def handleStatusChange_changed)
  qed
  have c: "previousStatusRef (fst (useFrame_8x4 st inp)) = animationStatus inp \<and>
         (frameIndexRef (fst (useFrame_8x4 st inp)), elapsedRef (fst (useFrame_8x4 st inp))) =
            updateAnimationFrame_8x4 (ANIMATION_CONFIG (animationStatus inp)) (0, 0) (delta inp)"
    using ne by (simp add: useFrame_8x4_def Let_def handleStatusChange_changed)
  from a b c show ?thesis by blast
qed

theorem status_change_resets_witness:
  "WALK \<noteq> IDLE \<and>
   (\<exists>st' off. useFrame SPRITE_MAP
       \<lparr>directionRef = East, elapsedRef = 1 / 16, frameIndexRef = 2, previousStatusRef = IDLE\<rparr>
       \<lparr>movingDir = \<lparr>vec_x = 0, vec_y = 0, vec_z = 1\<rparr>, inputDir = \<lparr>vec_x = 0, vec_y = 0, vec_z = 0\<rparr>,
        animationStatus = WALK, delta = 1 / 4\<rparr> = Inr (st', off) \<and>
      previousStatusRef st' = WALK \<and> frameIndexRef st' = 2 \<and> elapsedRef st' = 1 / 20) \<and>
   frameIndexRef (fst (useFrame_8x4
       \<lparr>directionRef = East, elapsedRef = 1 / 16, frameIndexRef = 2, previousStatusRef = IDLE\<rparr>
       \<lparr>movingDir = \<lparr>vec_x = 0, vec_y = 0, vec_z = 1\<rparr>, inputDir = \<lparr>vec_x = 0, vec_y = 0, vec_z = 0\<rparr>,
        animationStatus = WALK, delta = 1 / 4\<rparr>)) = 2"
proof -
  let ?st = "\<lparr>directionRef = East, elapsedRef = 1 / 16, frameIndexRef = 2, previousStatusRef = IDLE\<rparr>"
  let ?inp = "\<lparr>movingDir = \<lparr>vec_x = 0, vec_y = 0, vec_z = 1\<rparr>,
               inputDir = \<lparr>vec_x = 0, vec_y = 0, vec_z = 0\<rparr>,
               animationStatus = WALK, delta = 1 / 4\<rparr>"
  have clock: "updateAnimationFrame \<lparr>frames = [0, 1, 2, 3, 4, 5], fps = 10, loop = True\<rparr> (0, 0) (1 / 4)
                 = (2, 1 / 20)"
    by (simp add: updateAnimationFrame_def advanceFrames_eval nextFrameIndex_def)
  have clock8: "updateAnimationFrame_8x4 \<lparr>frameCount = 8, speedFps = 8\<rparr> (0, 0) (1 / 4) = (2, 0)"
    by (subst updateAnimationFrame_8x4_looping) (simp_all add: Let_def)
  show ?thesis
    using status_change_resets [of ?inp ?st SPRITE_MAP] clock clock8
    by (simp add: getSequence_SPRITE_MAP ANIMATION_CONFIG_def)
qed

lemma useFrame_total:
  assumes "idleDefined spriteMap"
  shows "\<exists>st' off. useFrame spriteMap st inp = Inr (st', off)"
proof -
  obtain s where
    "getSequence spriteMap (directionRef (determineFacing st inp)) (animationStatus inp) = Some s"
    using getSequence_defined [OF assms] by blast
  then show ?thesis
    by (simp only: useFrame_Some Let_def) blast
qed

text \<open>
  Claim C6. In every table in which each direction has its IDLE sequence (what the type
  of the table demands), the lookup succeeds for every direction and status: where the
  direction has no entry for the status the result is that direction's IDLE sequence,
  where it has one the result is that entry; and the callback of the 12 x 12 version never
  throws, whatever the status. (The 8 x 4 version reads total tables only and has no
  failing step.)
\<close>

theorem getSequence_falls_back:
  assumes "idleDefined spriteMap"
  shows "(\<exists>s. getSequence spriteMap facing status = Some s) \<and>
         (sequences (spriteMap facing) status = None \<longrightarrow>
            getSequence spriteMap facing status = sequences (spriteMap facing) IDLE) \<and>
         (\<forall>s. sequences (spriteMap facing) status = Some s \<longrightarrow>
            getSequence spriteMap facing status = Some s) \<and>
         (\<exists>r. useFrame spriteMap st inp = Inr r)"
proof -
  have a: "\<exists>s. getSequence spriteMap facing status = Some s"
    using assms by (rule getSequence_defined)
  have b: "sequences (spriteMap facing) status = None \<longrightarrow>
            getSequence spriteMap facing status = sequences (spriteMap facing) IDLE"
    by (simp add: getSequence_def Let_def)
  have c: "\<forall>s. sequences (spriteMap facing) status = Some s \<longrightarrow>
            getSequence spriteMap facing status = Some s"
    by (simp add: getSequence_def Let_def)
  have d: "\<exists>r. useFrame spriteMap st inp = Inr r"
    using useFrame_total [OF assms, of st inp] by blast
  from a b c d show ?thesis by blast
qed

theorem getSequence_falls_back_witness:
  "idleDefined (\<lambda>facing. \<lparr>row = 0, sequences = [IDLE \<mapsto> \<lparr>frames = [6, 7, 8], fps = 3, loop = True\<rparr>]\<rparr>) \<and>
   sequences ((\<lambda>facing. \<lparr>row = 0, sequences = [IDLE \<mapsto> \<lparr>frames = [6, 7, 8], fps = 3, loop = True\<rparr>]\<rparr>) West) RUN = None \<and>
   getSequence (\<lambda>facing. \<lparr>row = 0, sequences = [IDLE \<mapsto> \<lparr>frames = [6, 7, 8], fps = 3, loop = True\<rparr>]\<rparr>) West RUN
     = Some \<lparr>frames = [6, 7, 8], fps = 3, loop = True\<rparr> \<and>
   (\<exists>r. useFrame (\<lambda>facing. \<lparr>row = 0, sequences = [IDLE \<mapsto> \<lparr>frames = [6, 7, 8], fps = 3, loop = True\<rparr>]\<rparr>)
          (initialState IDLE)
          \<lparr>movingDir = \<lparr>vec_x = 0, vec_y = 0, vec_z = 0\<rparr>, inputDir = \<lparr>vec_x = 0, vec_y = 0, vec_z = 0\<rparr>,
           animationStatus = RUN, delta = 1 / 4\<rparr> = Inr r)"
  using getSequence_falls_back
    [of "\<lambda>facing. \<lparr>row = 0, sequences = [IDLE \<mapsto> \<lparr>frames = [6, 7, 8], fps = 3, loop = True\<rparr>]\<rparr>"
        West RUN "initialState IDLE"
        "\<lparr>movingDir = \<lparr>vec_x = 0, vec_y = 0, vec_z = 0\<rparr>, inputDir = \<lparr>vec_x = 0, vec_y = 0, vec_z = 0\<rparr>,
           animationStatus = RUN, delta = 1 / 4\<rparr>"]
  by (simp add: idleDefined_def)

text \<open>
  Claim C9. Each frame resolves the direction from \<open>movingDir\<close> when its squared length
  exceeds 1e-6 and from \<open>inputDir\<close> otherwise; the stored direction is overwritten with
  the resolved one only when the squared length of the chosen vector exceeds 1e-6, and is
  left as it was when neither vector exceeds it. In both versions.
\<close>

theorem facing_update:
  "(\<forall>st' off. useFrame spriteMap st inp = Inr (st', off) \<longrightarrow>
      directionRef st' =
        (if lengthSq (movingDir inp) > 1 / 1000000 then resolveFacingDirection (movingDir inp)
         else if lengthSq (inputDir inp) > 1 / 1000000 then resolveFacingDirection (inputDir inp)
         else directionRef st)) \<and>
   directionRef (fst (useFrame_8x4 st inp)) =
        (if lengthSq (movingDir inp) > 1 / 1000000 then resolveFacingDirection (movingDir inp)
         else if lengthSq (inputDir inp) > 1 / 1000000 then resolveFacingDirection (inputDir inp)
         else directionRef st) \<and>
   targetDirection inp =
        (if lengthSq (movingDir inp) > 1 / 1000000 then movingDir inp else inputDir inp)"
proof (intro conjI allI impI)
  fix st' off
  assume "useFrame spriteMap st inp = Inr (st', off)"
  then have "directionRef st' = directionRef (determineFacing st inp)"
    by (auto simp: useFrame_def Let_def split: option.splits)
  then show "directionRef st' =
        (if lengthSq (movingDir inp) > 1 / 1000000 then resolveFacingDirection (movingDir inp)
         else if lengthSq (inputDir inp) > 1 / 1000000 then resolveFacingDirection (inputDir inp)
         else directionRef st)"
    by (simp only: directionRef_determineFacing)
next
  have "directionRef (fst (useFrame_8x4 st inp)) =
          directionRef (determineFacing (handleStatusChange st (animationStatus inp)) inp)"
    by (simp add: useFrame_8x4_def Let_def)
  then show "directionRef (fst (useFrame_8x4 st inp)) =
        (if lengthSq (movingDir inp) > 1 / 1000000 then resolveFacingDirection (movingDir inp)
         else if lengthSq (inputDir inp) > 1 / 1000000 then resolveFacingDirection (inputDir inp)
         else directionRef st)"
    by (simp only: directionRef_determineFacing directionRef_handleStatusChange)
next
  show "targetDirection inp =
        (if lengthSq (movingDir inp) > 1 / 1000000 then movingDir inp else inputDir inp)"
    by (rule targetDirection_def)
qed


theorem facing_update_witness:
  "(\<exists>st' off. useFrame SPRITE_MAP (initialState IDLE)
       \<lparr>movingDir = \<lparr>vec_x = 1, vec_y = 0, vec_z = 0\<rparr>, inputDir = \<lparr>vec_x = 0, vec_y = 0, vec_z = - 1\<rparr>,
        animationStatus = WALK, delta = 1 / 4\<rparr> = Inr (st', off) \<and> directionRef st' = East) \<and>
   directionRef (fst (useFrame_8x4
       \<lparr>directionRef = West, elapsedRef = 0, frameIndexRef = 0, previousStatusRef = IDLE\<rparr>
       \<lparr>movingDir = \<lparr>vec_x = 0, vec_y = 0, vec_z = 0\<rparr>, inputDir = \<lparr>vec_x = 0, vec_y = 0, vec_z = - 1\<rparr>,
        animationStatus = IDLE, delta = 1 / 4\<rparr>)) = North \<and>
   directionRef (fst (useFrame_8x4
       \<lparr>directionRef = West, elapsedRef = 0, frameIndexRef = 0, previousStatusRef = IDLE\<rparr>
       \<lparr>movingDir = \<lparr>vec_x = 0, vec_y = 0, vec_z = 0\<rparr>, inputDir = \<lparr>vec_x = 1 / 2000, vec_y = 0, vec_z = 0\<rparr>,
        animationStatus = IDLE, delta = 1 / 4\<rparr>)) = West"
proof -
  let ?inp = "\<lparr>movingDir = \<lparr>vec_x = 1, vec_y = 0, vec_z = 0\<rparr>,
               inputDir = \<lparr>vec_x = 0, vec_y = 0, vec_z = - 1\<rparr>,
               animationStatus = WALK, delta = 1 / 4\<rparr>"
  let ?st8 = "\<lparr>directionRef = West, elapsedRef = 0, frameIndexRef = 0, previousStatusRef = IDLE\<rparr>"
  obtain st' off where run: "useFrame SPRITE_MAP (initialState IDLE) ?inp = Inr (st', off)"
    using useFrame_total [OF idleDefined_SPRITE_MAP] by blast
  have "directionRef st' = East"
    using facing_update [of SPRITE_MAP "initialState IDLE" ?inp] run
    by (simp add: lengthSq_def resolveFacingDirection_def dot_WORLD_RIGHT dot_WORLD_FORWARD)
  with run have first: "\<exists>st' off. useFrame SPRITE_MAP (initialState IDLE) ?inp = Inr (st', off) \<and>
      directionRef st' = East"
    by blast
  show ?thesis
    using first
      facing_update [of SPRITE_MAP ?st8
        "\<lparr>movingDir = \<lparr>vec_x = 0, vec_y = 0, vec_z = 0\<rparr>, inputDir = \<lparr>vec_x = 0, vec_y = 0, vec_z = - 1\<rparr>,
          animationStatus = IDLE, delta = 1 / 4\<rparr>"]
      facing_update [of SPRITE_MAP ?st8
        "\<lparr>movingDir = \<lparr>vec_x = 0, vec_y = 0, vec_z = 0\<rparr>, inputDir = \<lparr>vec_x = 1 / 2000, vec_y = 0, vec_z = 0\<rparr>,
          animationStatus = IDLE, delta = 1 / 4\<rparr>"]
    by (simp add: lengthSq_def resolveFacingDirection_def dot_WORLD_RIGHT dot_WORLD_FORWARD)
qed

subsection \<open>Texture offsets under the static table\<close>

lemma arrayGet_in_range:
  "0 \<le> i \<Longrightarrow> i < int (length xs) \<Longrightarrow> arrayGet xs i = Some (xs ! nat i) \<and> xs ! nat i \<in> set xs"
  by (simp add: arrayGet_def)

lemma offsetX_nonneg_frame:
  assumes "0 \<le> f"
  shows "offsetX f = real_of_int (f mod 12) / 12 \<and> 0 \<le> offsetX f \<and> offsetX f \<le> 1 - 1 / 12"
proof -
  have eq: "f smod 12 = f mod 12"
    using assms by (intro smod_nonneg) simp_all
  have lo: "0 \<le> f mod 12" by simp
  have "f mod 12 < 12" by simp
  then have hi: "f mod 12 \<le> 11" by linarith
  have "real_of_int (f mod 12) \<le> real_of_int 11"
    using hi by (simp only: of_int_le_iff)
  then have "real_of_int (f mod 12) / 12 \<le> 1 - 1 / 12" by simp
  moreover have "0 \<le> real_of_int (f mod 12) / 12" using lo by simp
  ultimately show ?thesis
    by (simp add: offsetX_def SPRITE_COLUMNS_def Let_def eq)
qed

lemma offsetY_SPRITE_MAP:
  "0 \<le> offsetY SPRITE_MAP facing \<and> offsetY SPRITE_MAP facing \<le> 1 - 1 / 12"
  by (cases facing) (simp_all add: offsetY_def SPRITE_MAP_def SPRITE_ROWS_def)

lemma textureOffset_SPRITE_MAP:
  assumes "getSequence SPRITE_MAP facing status = Some s"
    and "0 \<le> idx" and "idx < int (length (frames s))"
  shows "\<exists>u v. textureOffset SPRITE_MAP facing' s idx = (Some u, v) \<and>
           0 \<le> u \<and> u \<le> 1 - 1 / 12 \<and> 0 \<le> v \<and> v \<le> 1 - 1 / 12"
proof -
  from arrayGet_in_range [OF assms(2,3)]
  have get: "arrayGet (frames s) idx = Some (frames s ! nat idx)"
    and mem: "frames s ! nat idx \<in> set (frames s)" by simp_all
  have "0 \<le> frames s ! nat idx"
    using frames_SPRITE_MAP [OF assms(1)] mem by blast
  then have "0 \<le> offsetX (frames s ! nat idx) \<and> offsetX (frames s ! nat idx) \<le> 1 - 1 / 12"
    using offsetX_nonneg_frame by blast
  then show ?thesis
    using offsetY_SPRITE_MAP [of facing'] by (simp add: textureOffset_def get)
qed

lemma useFrame_SPRITE_MAP_step:
  assumes "inBounds st"
  shows "\<exists>st' s. useFrame SPRITE_MAP st inp =
                   Inr (st', textureOffset SPRITE_MAP (directionRef st') s (frameIndexRef st')) \<and>
                 getSequence SPRITE_MAP (directionRef st') (previousStatusRef st') = Some s \<and>
                 0 \<le> frameIndexRef st' \<and> frameIndexRef st' < int (length (frames s))"
proof -
  let ?status = "animationStatus inp"
  let ?st1 = "determineFacing st inp"
  let ?st2 = "handleStatusChange ?st1 ?status"
  obtain s where gs: "getSequence SPRITE_MAP (directionRef ?st1) ?status = Some s"
    using getSequence_defined [OF idleDefined_SPRITE_MAP] by blast
  have nonempty: "0 < int (length (frames s))"
    using frames_SPRITE_MAP [OF gs] by simp
  have start: "0 \<le> frameIndexRef ?st2 \<and> frameIndexRef ?st2 < int (length (frames s))"
  proof (cases "previousStatusRef st = ?status")
    case True
    then have same: "?st2 = ?st1" by (simp add: handleStatusChange_same)
    have "getSequence SPRITE_MAP (directionRef st) (previousStatusRef st) = Some s"
      using gs True getSequence_SPRITE_MAP_facing [of "directionRef st"]
        getSequence_SPRITE_MAP_facing [of "directionRef ?st1"] by simp
    then show ?thesis using assms same by (simp add: inBounds_def)
  next
    case False
    then have "frameIndexRef ?st2 = 0"
      by (simp add: handleStatusChange_changed)
    then show ?thesis using nonempty by simp
  qed
  let ?r = "updateAnimationFrame s (frameIndexRef ?st2, elapsedRef ?st2) (delta inp)"
  let ?st3 = "?st2\<lparr>frameIndexRef := fst ?r, elapsedRef := snd ?r\<rparr>"
  have range: "0 \<le> fst ?r \<and> fst ?r < int (length (frames s))"
    using start by (intro updateAnimationFrame_in_range) simp_all
  have run: "useFrame SPRITE_MAP st inp =
               Inr (?st3, textureOffset SPRITE_MAP (directionRef ?st3) s (frameIndexRef ?st3))"
    by (simp add: useFrame_Some [OF gs] Let_def)
  have "getSequence SPRITE_MAP (directionRef ?st3) (previousStatusRef ?st3) = Some s"
    using gs by simp
  with run range show ?thesis
    by (intro exI [of _ ?st3] exI [of _ s]) simp
qed

section \<open>The claims about bounds and the atlas mapping\<close>

text \<open>
  Claim C10. Under the static \<^verbatim>\<open>SPRITE_MAP\<close> the bound
  \<open>0 \<le> frameIndex < frames.length\<close> of the current sequence holds in the state of a
  freshly mounted component and is kept by every frame, whatever the inputs (a reset puts
  the index at 0, the clock keeps it below the length, and a change of direction selects
  a sequence of the same length); so the read \<^verbatim>\<open>sequence.frames[frameIndex]\<close> that gives
  the atlas column is always inside the array.
\<close>

theorem frame_index_in_bounds:
  "inBounds (initialState status) \<and>
   (inBounds st \<longrightarrow>
      (\<exists>st' s value rest. useFrame SPRITE_MAP st inp = Inr (st', (Some value, rest)) \<and>
         getSequence SPRITE_MAP (directionRef st') (previousStatusRef st') = Some s \<and>
         0 \<le> frameIndexRef st' \<and> frameIndexRef st' < int (length (frames s)) \<and>
         arrayGet (frames s) (frameIndexRef st') \<noteq> None \<and>
         inBounds st'))"
proof (intro conjI impI)
  show "inBounds (initialState status)"
    by (cases status) (simp_all add: inBounds_def initialState_def getSequence_SPRITE_MAP)
next
  assume "inBounds st"
  from useFrame_SPRITE_MAP_step [OF this, of inp]
  obtain st' s where
    run: "useFrame SPRITE_MAP st inp =
            Inr (st', textureOffset SPRITE_MAP (directionRef st') s (frameIndexRef st'))"
    and gs: "getSequence SPRITE_MAP (directionRef st') (previousStatusRef st') = Some s"
    and lo: "0 \<le> frameIndexRef st'" and hi: "frameIndexRef st' < int (length (frames s))"
    by blast
  have get: "arrayGet (frames s) (frameIndexRef st') = Some (frames s ! nat (frameIndexRef st'))"
    using arrayGet_in_range [OF lo hi] by simp
  have inb: "inBounds st'"
    using gs lo hi by (simp add: inBounds_def)
  have off: "textureOffset SPRITE_MAP (directionRef st') s (frameIndexRef st') =
               (Some (offsetX (frames s ! nat (frameIndexRef st'))),
                offsetY SPRITE_MAP (directionRef st'))"
    by (simp add: textureOffset_def get)
  show "\<exists>st' s value rest. useFrame SPRITE_MAP st inp = Inr (st', (Some value, rest)) \<and>
         getSequence SPRITE_MAP (directionRef st') (previousStatusRef st') = Some s \<and>
         0 \<le> frameIndexRef st' \<and> frameIndexRef st' < int (length (frames s)) \<and>
         arrayGet (frames s) (frameIndexRef st') \<noteq> None \<and>
         inBounds st'"
    using run gs lo hi get inb unfolding off by blast
qed

theorem frame_index_in_bounds_witness:
  "inBounds (initialState WALK) \<and>
   (\<exists>st' s value rest.
      useFrame SPRITE_MAP (initialState WALK)
        \<lparr>movingDir = \<lparr>vec_x = 0, vec_y = 0, vec_z = 1\<rparr>, inputDir = \<lparr>vec_x = 0, vec_y = 0, vec_z = 0\<rparr>,
         animationStatus = WALK, delta = 1 / 4\<rparr> = Inr (st', (Some value, rest)) \<and>
      getSequence SPRITE_MAP (directionRef st') (previousStatusRef st') = Some s \<and>
      0 \<le> frameIndexRef st' \<and> frameIndexRef st' < int (length (frames s)) \<and>
      arrayGet (frames s) (frameIndexRef st') \<noteq> None \<and> inBounds st')"
  using frame_index_in_bounds [of WALK "initialState WALK"
      "\<lparr>movingDir = \<lparr>vec_x = 0, vec_y = 0, vec_z = 1\<rparr>, inputDir = \<lparr>vec_x = 0, vec_y = 0, vec_z = 0\<rparr>,
         animationStatus = WALK, delta = 1 / 4\<rparr>"]
  by blast

text \<open>
  Claim C7. Under the 12 x 12 configuration every frame run from a state within bounds
  emits an offset with \<open>offsetX\<close> and \<open>offsetY\<close> in \<open>[0, 1 - 1/12]\<close>, and so does every
  direction with every valid index of every sequence of the table. The frame value is
  reduced modulo the column count before the division, so that a frame value beyond the
  columns of the atlas (a column index of 12 or more, of any size) still gives an
  \<open>offsetX\<close> in that range.
\<close>

theorem texture_offset_in_range:
  "(inBounds st \<longrightarrow>
      (\<exists>st' u v. useFrame SPRITE_MAP st inp = Inr (st', (Some u, v)) \<and>
         0 \<le> u \<and> u \<le> 1 - 1 / 12 \<and> 0 \<le> v \<and> v \<le> 1 - 1 / 12)) \<and>
   (getSequence SPRITE_MAP facing status = Some s \<and> 0 \<le> idx \<and> idx < int (length (frames s)) \<longrightarrow>
      (\<exists>u v. textureOffset SPRITE_MAP facing s idx = (Some u, v) \<and>
         0 \<le> u \<and> u \<le> 1 - 1 / 12 \<and> 0 \<le> v \<and> v \<le> 1 - 1 / 12)) \<and>
   (0 \<le> frameValue \<longrightarrow> 0 \<le> offsetX frameValue \<and> offsetX frameValue \<le> 1 - 1 / 12)"
proof (intro conjI impI)
  assume "inBounds st"
  from useFrame_SPRITE_MAP_step [OF this, of inp]
  obtain st' s where
    run: "useFrame SPRITE_MAP st inp =
            Inr (st', textureOffset SPRITE_MAP (directionRef st') s (frameIndexRef st'))"
    and gs: "getSequence SPRITE_MAP (directionRef st') (previousStatusRef st') = Some s"
    and lo: "0 \<le> frameIndexRef st'" and hi: "frameIndexRef st' < int (length (frames s))"
    by blast
  from textureOffset_SPRITE_MAP [OF gs lo hi, of "directionRef st'"] run
  show "\<exists>st' u v. useFrame SPRITE_MAP st inp = Inr (st', (Some u, v)) \<and>
         0 \<le> u \<and> u \<le> 1 - 1 / 12 \<and> 0 \<le> v \<and> v \<le> 1 - 1 / 12"
    by auto
next
  assume "getSequence SPRITE_MAP facing status = Some s \<and> 0 \<le> idx \<and> idx < int (length (frames s))"
  then show "\<exists>u v. textureOffset SPRITE_MAP facing s idx = (Some u, v) \<and>
         0 \<le> u \<and> u \<le> 1 - 1 / 12 \<and> 0 \<le> v \<and> v \<le> 1 - 1 / 12"
    using textureOffset_SPRITE_MAP [of facing status s idx facing] by blast
next
  assume "0 \<le> frameValue"
  then show "0 \<le> offsetX frameValue" using offsetX_nonneg_frame by blast
next
  assume "0 \<le> frameValue"
  then show "offsetX frameValue \<le> 1 - 1 / 12" using offsetX_nonneg_frame by blast
qed

theorem texture_offset_in_range_witness:
  "inBounds (initialState WALK) \<and>
   (\<exists>st' u v. useFrame SPRITE_MAP (initialState WALK)
        \<lparr>movingDir = \<lparr>vec_x = 0, vec_y = 0, vec_z = 1\<rparr>, inputDir = \<lparr>vec_x = 0, vec_y = 0, vec_z = 0\<rparr>,
         animationStatus = WALK, delta = 1 / 4\<rparr> = Inr (st', (Some u, v)) \<and>
      0 \<le> u \<and> u \<le> 1 - 1 / 12 \<and> 0 \<le> v \<and> v \<le> 1 - 1 / 12) \<and>
   (\<exists>u v. textureOffset SPRITE_MAP East \<lparr>frames = [6, 7, 8], fps = 3, loop = True\<rparr> 2 = (Some u, v) \<and>
      0 \<le> u \<and> u \<le> 1 - 1 / 12 \<and> 0 \<le> v \<and> v \<le> 1 - 1 / 12) \<and>
   0 \<le> offsetX 29 \<and> offsetX 29 \<le> 1 - 1 / 12"
proof -
  have inb: "inBounds (initialState WALK)"
    by (simp add: inBounds_def initialState_def getSequence_SPRITE_MAP)
  have gs: "getSequence SPRITE_MAP East IDLE = Some \<lparr>frames = [6, 7, 8], fps = 3, loop = True\<rparr>"
    by (simp add: getSequence_SPRITE_MAP)
  show ?thesis
    using inb gs
      texture_offset_in_range [of "initialState WALK"
        "\<lparr>movingDir = \<lparr>vec_x = 0, vec_y = 0, vec_z = 1\<rparr>, inputDir = \<lparr>vec_x = 0, vec_y = 0, vec_z = 0\<rparr>,
          animationStatus = WALK, delta = 1 / 4\<rparr>"
        East IDLE "\<lparr>frames = [6, 7, 8], fps = 3, loop = True\<rparr>" 2 29]
    by simp
qed

text \<open>
  Claim C8, as amended. In the 12 x 12 version \<open>offsetX\<close> is the frame value reduced with
  \<^verbatim>\<open>%\<close> by the 12 columns, over 12 (the mathematical \<open>mod\<close> for a non-negative frame
  value), and \<open>offsetY\<close> is the row of the direction in the table over 12; the callback
  emits these for the frame value at the new frame index and the new direction. In the
  8 x 4 version the column is the frame index itself reduced by the 8 columns, and
  \<open>offsetY = 1 - (DIRECTION_ROW[direction] + 1) / 4\<close>.
\<close>

theorem atlas_mapping:
  "offsetX frameValue = real_of_int (frameValue smod 12) / 12 \<and>
   (0 \<le> frameValue \<longrightarrow> offsetX frameValue = real_of_int (frameValue mod 12) / 12) \<and>
   offsetY spriteMap facing = real_of_int (row (spriteMap facing)) / 12 \<and>
   (\<forall>st' off. useFrame spriteMap st inp = Inr (st', off) \<longrightarrow>
      (\<exists>s. getSequence spriteMap (directionRef st') (animationStatus inp) = Some s \<and>
           off = (map_option offsetX (arrayGet (frames s) (frameIndexRef st')),
                  offsetY spriteMap (directionRef st')))) \<and>
   textureOffset_8x4 facing idx =
     (real_of_int (idx smod 8) / 8, 1 - real_of_int (DIRECTION_ROW facing + 1) / 4) \<and>
   (0 \<le> idx \<longrightarrow> fst (textureOffset_8x4 facing idx) = real_of_int (idx mod 8) / 8) \<and>
   snd (useFrame_8x4 st inp) =
     textureOffset_8x4 (directionRef (fst (useFrame_8x4 st inp))) (frameIndexRef (fst (useFrame_8x4 st inp)))"
proof (intro conjI impI allI)
  show "offsetX frameValue = real_of_int (frameValue smod 12) / 12"
    by (simp add: offsetX_def SPRITE_COLUMNS_def Let_def)
next
  assume "0 \<le> frameValue"
  then show "offsetX frameValue = real_of_int (frameValue mod 12) / 12"
    using offsetX_nonneg_frame by blast
next
  show "offsetY spriteMap facing = real_of_int (row (spriteMap facing)) / 12"
    by (simp add: offsetY_def SPRITE_ROWS_def)
next
  fix st' off
  assume "useFrame spriteMap st inp = Inr (st', off)"
  then show "\<exists>s. getSequence spriteMap (directionRef st') (animationStatus inp) = Some s \<and>
           off = (map_option offsetX (arrayGet (frames s) (frameIndexRef st')),
                  offsetY spriteMap (directionRef st'))"
    by (auto simp: useFrame_def Let_def textureOffset_def split: option.splits)
next
  show "textureOffset_8x4 facing idx =
     (real_of_int (idx smod 8) / 8, 1 - real_of_int (DIRECTION_ROW facing + 1) / 4)"
    by (simp add: textureOffset_8x4_def SPRITE_COLUMNS_8x4_def SPRITE_ROWS_8x4_def Let_def)
next
  assume "0 \<le> idx"
  then have "idx smod 8 = idx mod 8" by (intro smod_nonneg) simp_all
  then show "fst (textureOffset_8x4 facing idx) = real_of_int (idx mod 8) / 8"
    by (simp add: textureOffset_8x4_def SPRITE_COLUMNS_8x4_def Let_def)
next
  show "snd (useFrame_8x4 st inp) =
     textureOffset_8x4 (directionRef (fst (useFrame_8x4 st inp))) (frameIndexRef (fst (useFrame_8x4 st inp)))"
    by (simp add: useFrame_8x4_def Let_def)
qed

theorem atlas_mapping_witness:
  "offsetX 14 = real_of_int 2 / 12 \<and>
   fst (textureOffset_8x4 East 10) = real_of_int 2 / 8 \<and>
   (\<exists>st' off s. useFrame SPRITE_MAP (initialState IDLE)
        \<lparr>movingDir = \<lparr>vec_x = 0, vec_y = 0, vec_z = 1\<rparr>, inputDir = \<lparr>vec_x = 0, vec_y = 0, vec_z = 0\<rparr>,
         animationStatus = WALK, delta = 1 / 4\<rparr> = Inr (st', off) \<and>
      getSequence SPRITE_MAP (directionRef st') WALK = Some s \<and>
      off = (map_option offsetX (arrayGet (frames s) (frameIndexRef st')),
             offsetY SPRITE_MAP (directionRef st')))"
proof -
  let ?inp = "\<lparr>movingDir = \<lparr>vec_x = 0, vec_y = 0, vec_z = 1\<rparr>,
               inputDir = \<lparr>vec_x = 0, vec_y = 0, vec_z = 0\<rparr>,
               animationStatus = WALK, delta = 1 / 4\<rparr>"
  obtain st' off where run: "useFrame SPRITE_MAP (initialState IDLE) ?inp = Inr (st', off)"
    using useFrame_total [OF idleDefined_SPRITE_MAP] by blast
  note inst = atlas_mapping [of 14 SPRITE_MAP East "initialState IDLE" ?inp 10]
  have a: "offsetX 14 = real_of_int 2 / 12" using inst by simp
  have b: "fst (textureOffset_8x4 East 10) = real_of_int 2 / 8" using inst by simp
  have "\<exists>s. getSequence SPRITE_MAP (directionRef st') WALK = Some s \<and>
           off = (map_option offsetX (arrayGet (frames s) (frameIndexRef st')),
                  offsetY SPRITE_MAP (directionRef st'))"
    using inst run by fastforce
  with run a b show ?thesis by blast
qed

text \<open>
  The claim as stated fails in the 8 x 4 version: for South the row is 0, the claimed
  \<open>offsetY\<close> is 0 and the computed one is 3/4.
\<close>

theorem atlas_mapping_counterexample:
  "snd (textureOffset_8x4 South 0) = 3 / 4 \<and>
   real_of_int (DIRECTION_ROW South) / real_of_int SPRITE_ROWS_8x4 = 0 \<and>
   snd (textureOffset_8x4 South 0) \<noteq> real_of_int (DIRECTION_ROW South) / real_of_int SPRITE_ROWS_8x4"
  by (simp add: textureOffset_8x4_def DIRECTION_ROW_def SPRITE_ROWS_8x4_def Let_def)

end
